theory Spec2Isabelle
  imports Complex_Main
begin

section \<open>The conversation flow of the Yelp bot (app.js, yelp.js)\<close>

text \<open>
  The program is a webhook endpoint. \<open>processEvent\<close> dispatches a request on the \<open>type\<close>
  of its body: \<open>verification\<close> to \<open>verifyCallback\<close>, \<open>message-annotation-added\<close> to
  \<open>checkAnnotations\<close>, \<open>message-created\<close> to \<open>checkResponse\<close>. The last two run
  synchronously on the in-memory conversation map \<open>inMemoryState\<close> and call \<open>sendMessage\<close>
  and \<open>searchYelp\<close>, which start HTTP requests whose callbacks run later. Such a handler
  is modelled as a function from the map to the map as it leaves it, the list of calls it
  made, in order, and the exception that ended it, if any; the callback of the search is
  a function of its own, applied to the map as it is when the response arrives.

  Modelling assumptions: the fields \<open>spaceId\<close>, \<open>userId\<close>, \<open>content\<close>, \<open>annotationType\<close> and
  \<open>annotationPayload\<close> of a webhook body are strings, as the platform sends them; the
  characters are single code units.

  \<open>inMemoryState\<close> is a plain object, read and written with \<open>inMemoryState[spaceId]\<close>. It
  is modelled as a map from space ids to entries. For the key \<open>__proto__\<close> the object has
  no property of its own: an assignment sets its prototype, a read returns that
  prototype, and \<open>delete\<close> removes nothing (\<open>delete_entry\<close> below). Every other property
  that the object inherits is a value without a \<open>state\<close>, which \<open>checkResponse\<close> treats as
  it treats a missing entry.
\<close>

subsection \<open>Constants\<close>

definition PROMPT_TO_LIST :: string where
  "PROMPT_TO_LIST = ''Would you like to search for restaurants?''"

definition WHICH_ZIP :: string where
  "WHICH_ZIP = ''Which zipcode should we search in?''"

definition CANCEL_REQUEST :: string where
  "CANCEL_REQUEST = ''No problem! Let us know if you need to later!''"

subsection \<open>The confirmation regular expression\<close>

text \<open>
  \<open>CONFIRMATION_REGEX = /((o)?k|y(es)?)/i\<close>. Only whether \<open>content.match\<close> finds a match is
  observed, so capture groups are kept as structure only. The matcher returns, for a
  pattern and a text, the remainders left after each way of matching the pattern at the
  start of the text, in the backtracking order of the language (an optional part is tried
  present first). \<open>String.prototype.match\<close> searches: it tries every start position.
\<close>

datatype regex =
    Chr char
  | Opt regex
  | Alt regex regex
  | Seq regex regex

definition canonicalize :: "char \<Rightarrow> char" where
  \<comment> \<open>the case folding of the \<open>i\<close> flag, which maps a letter to its upper case; no character
      outside a to z folds to one of the upper-case letters of the pattern\<close>
  "canonicalize c =
     (case map_of (zip ''abcdefghijklmnopqrstuvwxyz'' ''ABCDEFGHIJKLMNOPQRSTUVWXYZ'') c of
        Some u \<Rightarrow> u
      | None \<Rightarrow> c)"

fun matchesAt :: "regex \<Rightarrow> string \<Rightarrow> string list" where
  "matchesAt (Chr c) s =
     (case s of [] \<Rightarrow> [] | x # xs \<Rightarrow> if canonicalize x = canonicalize c then [xs] else [])"
| "matchesAt (Opt r) s = matchesAt r s @ [s]"
| "matchesAt (Alt a b) s = matchesAt a s @ matchesAt b s"
| "matchesAt (Seq a b) s = concat (map (matchesAt b) (matchesAt a s))"

fun regexSearch :: "regex \<Rightarrow> string \<Rightarrow> bool" where
  "regexSearch r [] = (matchesAt r [] \<noteq> [])"
| "regexSearch r (x # xs) = (matchesAt r (x # xs) \<noteq> [] \<or> regexSearch r xs)"

definition CONFIRMATION_REGEX :: regex where
  "CONFIRMATION_REGEX =
     Alt (Seq (Opt (Chr CHR ''o'')) (Chr CHR ''k''))
         (Seq (Chr CHR ''y'') (Opt (Seq (Chr CHR ''e'') (Chr CHR ''s''))))"

definition content_match :: "string \<Rightarrow> bool" where
  \<comment> \<open>the truth value of \<open>content.match(CONFIRMATION_REGEX)\<close>\<close>
  "content_match content = regexSearch CONFIRMATION_REGEX content"

subsection \<open>Values parsed from JSON\<close>

text \<open>
  The values that \<open>JSON.parse\<close> returns, with \<open>undefined\<close> for the result of reading a
  property that is not there. An object is the list of its own properties (its keys are
  distinct). \<open>JSON.parse\<close>, \<open>JSON.stringify\<close>, the HMAC of the \<open>crypto\<close> module and the
  conversion of a number to a string are library functions: the definitions below take
  them as parameters (\<open>parse\<close> returns \<open>None\<close> where \<open>JSON.parse\<close> throws a SyntaxError).
\<close>

datatype jsval =
    Undefined
  | Null
  | Bool bool
  | Num rat
  | Str string
  | Arr "jsval list"
  | Obj "(string \<times> jsval) list"

datatype error = TypeError | SyntaxError

fun getProp :: "jsval \<Rightarrow> string \<Rightarrow> error + jsval" where
  \<comment> \<open>\<open>v.k\<close> for the property names the program reads (\<open>lens\<close>, \<open>category\<close>, \<open>businesses\<close>,
      \<open>name\<close>, \<open>url\<close>, \<open>categories\<close>, \<open>title\<close>, \<open>rating\<close>, \<open>access_token\<close>): none of them is a
      built-in property of a string, an array, a number or a boolean\<close>
  "getProp Undefined k = Inl TypeError"
| "getProp Null k = Inl TypeError"
| "getProp (Obj kvs) k = Inr (case map_of kvs k of Some v \<Rightarrow> v | None \<Rightarrow> Undefined)"
| "getProp v k = Inr Undefined"

fun getIndex0 :: "jsval \<Rightarrow> error + jsval" where
  \<comment> \<open>\<open>v[0]\<close>\<close>
  "getIndex0 Undefined = Inl TypeError"
| "getIndex0 Null = Inl TypeError"
| "getIndex0 (Arr xs) = Inr (case xs of [] \<Rightarrow> Undefined | x # _ \<Rightarrow> x)"
| "getIndex0 (Str s) = Inr (case s of [] \<Rightarrow> Undefined | c # _ \<Rightarrow> Str [c])"
| "getIndex0 (Obj kvs) = Inr (case map_of kvs ''0'' of Some v \<Rightarrow> v | None \<Rightarrow> Undefined)"
| "getIndex0 v = Inr Undefined"

fun join :: "string list \<Rightarrow> string" where
  "join [] = []"
| "join [s] = s"
| "join (s # t # ss) = s @ '','' @ join (t # ss)"

fun collect :: "(error + 'a) list \<Rightarrow> error + 'a list" where
  \<comment> \<open>the results of a left-to-right evaluation that stops at the first exception\<close>
  "collect [] = Inr []"
| "collect (Inl e # rs) = Inl e"
| "collect (Inr x # rs) = (case collect rs of Inl e \<Rightarrow> Inl e | Inr xs \<Rightarrow> Inr (x # xs))"

fun ToString :: "(rat \<Rightarrow> string) \<Rightarrow> jsval \<Rightarrow> error + string" where
  \<comment> \<open>the conversion a template literal applies to \<open>${v}\<close>. An array is joined with commas,
      \<open>undefined\<close> and \<open>null\<close> elements giving the empty string. An object is converted by
      its \<open>toString\<close> method: the inherited one gives \<open>[object Object]\<close>; a parsed object with
      a property \<open>toString\<close> of its own has no callable one (and the inherited \<open>valueOf\<close>
      returns the object), so the conversion throws a TypeError\<close>
  "ToString numToStr Undefined = Inr ''undefined''"
| "ToString numToStr Null = Inr ''null''"
| "ToString numToStr (Bool b) = Inr (if b then ''true'' else ''false'')"
| "ToString numToStr (Num n) = Inr (numToStr n)"
| "ToString numToStr (Str s) = Inr s"
| "ToString numToStr (Arr xs) =
     (case collect (map (\<lambda>x. if x = Undefined \<or> x = Null then Inr [] else ToString numToStr x) xs) of
        Inl e \<Rightarrow> Inl e
      | Inr ss \<Rightarrow> Inr (join ss))"
| "ToString numToStr (Obj kvs) =
     (if map_of kvs ''toString'' = None then Inr ''[object Object]'' else Inl TypeError)"

subsection \<open>The conversation map and the calls a handler makes\<close>

record entry =
  state :: int
  zip' :: string

type_synonym store = "string \<rightharpoonup> entry"

definition delete_entry :: "string \<Rightarrow> store \<Rightarrow> store" where
  \<comment> \<open>\<open>delete inMemoryState[spaceId]\<close>\<close>
  "delete_entry sid st = (if sid = ''__proto__'' then st else st(sid := None))"

datatype call =
    SendMessage string string  \<comment> \<open>\<open>sendMessage(spaceId, message)\<close>\<close>
  | SearchYelp string string   \<comment> \<open>\<open>searchYelp(zip, callback)\<close>, the callback closed over \<open>spaceId\<close>\<close>

text \<open>
  What a handler did: the map as it leaves it, the calls it made, and the exception that
  ended it, if one did.
\<close>

type_synonym result = "store \<times> call list \<times> error option"

text \<open>The fields of \<open>req.body\<close> that the handlers read.\<close>

record webhook_body =
  spaceId :: string
  userId :: string
  content :: string
  annotationType :: string
  annotationPayload :: string
  challenge :: jsval

subsection \<open>listRestaurants and its search callback (app.js, lines 61 to 80)\<close>

definition listRestaurants :: "string \<Rightarrow> store \<Rightarrow> result" where
  "listRestaurants sid st =
     (case st sid of
        None \<Rightarrow> (st, [], Some TypeError)
      | Some e \<Rightarrow>
          if zip' e = []
          then (st(sid \<mapsto> e\<lparr>state := 2\<rparr>), [SendMessage sid WHICH_ZIP], None)
          else (st, [SearchYelp (zip' e) sid], None))"

text \<open>
  The body of the \<open>forEach\<close> callback is two \<open>message +=\<close> statements, each appending a
  template literal; a substitution reads its value and then converts it to a string.
\<close>

definition appendLink :: "(rat \<Rightarrow> string) \<Rightarrow> jsval \<Rightarrow> string \<Rightarrow> error + string" where
  \<comment> \<open>the first statement, app.js line 72\<close>
  "appendLink numToStr restaurant message =
     (case getProp restaurant ''name'' of Inl e \<Rightarrow> Inl e | Inr name \<Rightarrow>
      case ToString numToStr name of Inl e \<Rightarrow> Inl e | Inr name_text \<Rightarrow>
      case getProp restaurant ''url'' of Inl e \<Rightarrow> Inl e | Inr url \<Rightarrow>
      case ToString numToStr url of Inl e \<Rightarrow> Inl e | Inr url_text \<Rightarrow>
      Inr (message @ ''* ['' @ name_text @ '']('' @ url_text @ '')''))"

definition appendDetails :: "(rat \<Rightarrow> string) \<Rightarrow> jsval \<Rightarrow> string \<Rightarrow> error + string" where
  \<comment> \<open>the second statement, app.js line 73\<close>
  "appendDetails numToStr restaurant message =
     (case getProp restaurant ''categories'' of Inl e \<Rightarrow> Inl e | Inr categories \<Rightarrow>
      case getIndex0 categories of Inl e \<Rightarrow> Inl e | Inr category0 \<Rightarrow>
      case getProp category0 ''title'' of Inl e \<Rightarrow> Inl e | Inr title \<Rightarrow>
      case ToString numToStr title of Inl e \<Rightarrow> Inl e | Inr title_text \<Rightarrow>
      case getProp restaurant ''rating'' of Inl e \<Rightarrow> Inl e | Inr rating \<Rightarrow>
      case ToString numToStr rating of Inl e \<Rightarrow> Inl e | Inr rating_text \<Rightarrow>
      Inr (message @ '' - '' @ title_text @ '' (Rated: '' @ rating_text @ '' stars)''
             @ [CHR 0x0A]))"

definition renderRestaurant :: "(rat \<Rightarrow> string) \<Rightarrow> jsval \<Rightarrow> string \<Rightarrow> error + string" where
  "renderRestaurant numToStr restaurant message =
     (case appendLink numToStr restaurant message of
        Inl e \<Rightarrow> Inl e
      | Inr message1 \<Rightarrow> appendDetails numToStr restaurant message1)"

fun forEach_restaurant :: "(rat \<Rightarrow> string) \<Rightarrow> jsval list \<Rightarrow> string \<Rightarrow> error + string" where
  "forEach_restaurant numToStr [] message = Inr message"
| "forEach_restaurant numToStr (r # rs) message =
     (case renderRestaurant numToStr r message of
        Inl e \<Rightarrow> Inl e
      | Inr message' \<Rightarrow> forEach_restaurant numToStr rs message')"

definition searchCallback :: "(rat \<Rightarrow> string) \<Rightarrow> string \<Rightarrow> jsval \<Rightarrow> store \<Rightarrow> result" where
  \<comment> \<open>the function passed to \<open>searchYelp\<close>, run on the parsed search response\<close>
  "searchCallback numToStr sid response st =
     (case getProp response ''businesses'' of
        Inl e \<Rightarrow> (st, [], Some e)
      | Inr (Arr businesses) \<Rightarrow>
          (case forEach_restaurant numToStr businesses
                  (''Here are some options:'' @ [CHR 0x0A, CHR 0x0A]) of
             Inl e \<Rightarrow> (st, [], Some e)
           | Inr message \<Rightarrow> (delete_entry sid st, [SendMessage sid message], None))
      | Inr _ \<Rightarrow> (st, [], Some TypeError))"

subsection \<open>checkResponse (app.js, lines 82 to 108)\<close>

definition checkResponse :: "string option \<Rightarrow> webhook_body \<Rightarrow> store \<Rightarrow> result" where
  \<comment> \<open>\<open>appId\<close> is \<open>process.env.APP_ID\<close>, \<open>None\<close> when the variable is not set\<close>
  "checkResponse appId body st =
     (case st (spaceId body) of
        None \<Rightarrow> (st, [], None)
      | Some e \<Rightarrow>
          if state e = 0 \<or> Some (userId body) = appId then (st, [], None)
          else if state e = 1 then
            (if \<not> content_match (content body)
             then (delete_entry (spaceId body) st,
                   [SendMessage (spaceId body) CANCEL_REQUEST], None)
             else listRestaurants (spaceId body) st)
          else if state e = 2 then
            listRestaurants (spaceId body) (st(spaceId body \<mapsto> e\<lparr>zip' := content body\<rparr>))
          else listRestaurants (spaceId body) st)"

subsection \<open>checkAnnotations (app.js, lines 110 to 132)\<close>

definition checkAnnotations ::
  "(string \<Rightarrow> jsval option) \<Rightarrow> webhook_body \<Rightarrow> store \<Rightarrow> result" where
  "checkAnnotations parse body st =
     (if annotationType body \<noteq> ''message-focus'' then (st, [], None)
      else case parse (annotationPayload body) of
        None \<Rightarrow> (st, [], Some SyntaxError)
      | Some annotationBody \<Rightarrow>
          (case getProp annotationBody ''lens'' of
             Inl e \<Rightarrow> (st, [], Some e)
           | Inr lens \<Rightarrow>
               if lens \<noteq> Str ''Food'' then (st, [], None)
               else case getProp annotationBody ''category'' of
                 Inl e \<Rightarrow> (st, [], Some e)
               | Inr category \<Rightarrow>
                   if category \<noteq> Str ''Request'' then (st, [], None)
                   else (st(spaceId body \<mapsto> \<lparr>state = 1, zip' = []\<rparr>),
                         [SendMessage (spaceId body) PROMPT_TO_LIST], None)))"

text \<open>
  The maps the program can be in: it starts with the empty map, and the map changes only
  in the two handlers and in the search callback.
\<close>

inductive reachable ::
  "string option \<Rightarrow> (string \<Rightarrow> jsval option) \<Rightarrow> (rat \<Rightarrow> string) \<Rightarrow> store \<Rightarrow> bool"
  for appId :: "string option" and parse :: "string \<Rightarrow> jsval option" and numToStr :: "rat \<Rightarrow> string"
where
  initial: "reachable appId parse numToStr Map.empty"
| message_created:
    "reachable appId parse numToStr st \<Longrightarrow> reachable appId parse numToStr (fst (checkResponse appId body st))"
| annotation_added:
    "reachable appId parse numToStr st \<Longrightarrow> reachable appId parse numToStr (fst (checkAnnotations parse body st))"
| search_response:
    "reachable appId parse numToStr st \<Longrightarrow>
       reachable appId parse numToStr (fst (searchCallback numToStr sid response st))"

subsection \<open>verifyCallback (app.js, lines 43 to 59)\<close>

text \<open>
  What the handler puts into the response: the headers it sets with \<open>res.set\<close> and the
  body that \<open>res.send\<close> writes. \<open>res.send\<close> of an object writes its JSON serialization.
  \<open>crypto.createHmac\<close> throws a TypeError when the key is \<open>undefined\<close>.
\<close>

record http_reply =
  headers_set :: "(string \<times> string) list"
  body_sent :: string

definition verifyCallback ::
  "(string \<Rightarrow> string \<Rightarrow> string) \<Rightarrow> (jsval \<Rightarrow> string) \<Rightarrow> string option \<Rightarrow> webhook_body
     \<Rightarrow> error + http_reply" where
  \<comment> \<open>\<open>hmac_sha256_hex key text\<close> is \<open>crypto.createHmac('sha256', key).update(text).digest('hex')\<close>,
      \<open>stringify\<close> is \<open>JSON.stringify\<close>, \<open>webhookSecret\<close> is \<open>process.env.WEBHOOK_SECRET\<close>\<close>
  "verifyCallback hmac_sha256_hex stringify webhookSecret body =
     (let bodyToSend = Obj [(''response'', challenge body)] in
      case webhookSecret of
        None \<Rightarrow> Inl TypeError
      | Some key \<Rightarrow>
          (let hashToSend = hmac_sha256_hex key (stringify bodyToSend) in
           Inr \<lparr>headers_set = [(''X-OUTBOUND-TOKEN'', hashToSend)],
                body_sent = stringify bodyToSend\<rparr>))"

subsection \<open>Authentication and search (app.js, lines 150 to 175; yelp.js)\<close>

text \<open>
  The callback that \<open>request\<close> runs when the token request completes gets the response
  (\<open>None\<close> when the request failed and there is none). \<open>process.exit\<close> does not return, so
  what follows it does not run.
\<close>

record http_response =
  statusCode :: int
  response_body :: string

datatype 'a outcome =
    ProcessExit int   \<comment> \<open>\<open>process.exit(code)\<close>\<close>
  | Threw error
  | Invoked 'a        \<comment> \<open>the continuation was called, with this result\<close>

definition authenticateApp_onResponse ::
  "(string \<Rightarrow> jsval option) \<Rightarrow> http_response option \<Rightarrow> (jsval \<Rightarrow> 'a) \<Rightarrow> 'a outcome" where
  \<comment> \<open>app.js, lines 167 to 174\<close>
  "authenticateApp_onResponse parse response callback =
     (case response of
        None \<Rightarrow> Threw TypeError
      | Some r \<Rightarrow>
          if statusCode r \<noteq> 200 then ProcessExit 1
          else case parse (response_body r) of
            None \<Rightarrow> Threw SyntaxError
          | Some parsed \<Rightarrow>
              (case getProp parsed ''access_token'' of
                 Inl e \<Rightarrow> Threw e
               | Inr token \<Rightarrow> Invoked (callback token)))"

definition authenticate_onResponse ::
  "(string \<Rightarrow> jsval option) \<Rightarrow> http_response option \<Rightarrow> (jsval \<Rightarrow> 'a) \<Rightarrow> 'a outcome" where
  \<comment> \<open>yelp.js, lines 266 to 273 of the listing\<close>
  "authenticate_onResponse parse response callback =
     (case response of
        None \<Rightarrow> Threw TypeError
      | Some r \<Rightarrow>
          if statusCode r \<noteq> 200 then ProcessExit 1
          else case parse (response_body r) of
            None \<Rightarrow> Threw SyntaxError
          | Some parsed \<Rightarrow>
              (case getProp parsed ''access_token'' of
                 Inl e \<Rightarrow> Threw e
               | Inr token \<Rightarrow> Invoked (callback token)))"

definition YELP_API :: string where
  "YELP_API = ''https://api.yelp.com''"

definition YELP_SEARCH :: string where
  "YELP_SEARCH = ''v3/businesses/search''"

definition requestOptions :: "(rat \<Rightarrow> string) \<Rightarrow> string \<Rightarrow> jsval \<Rightarrow> error + jsval" where
  \<comment> \<open>the options of the search request that \<open>searchYelp\<close> builds once it has the token; the
      template literal of the \<open>Authorization\<close> header converts the token to a string\<close>
  "requestOptions numToStr zip_arg token =
     (case ToString numToStr token of
        Inl e \<Rightarrow> Inl e
      | Inr token_text \<Rightarrow>
          Inr (Obj [(''method'', Str ''GET''),
                    (''headers'', Obj [(''Authorization'', Str (''Bearer '' @ token_text))]),
                    (''url'', Str (YELP_API @ ''/'' @ YELP_SEARCH)),
                    (''qs'', Obj [(''location'', Str zip_arg), (''term'', Str ''food''),
                                  (''limit'', Num 5)])]))"

definition searchYelp ::
  "(string \<Rightarrow> jsval option) \<Rightarrow> (rat \<Rightarrow> string) \<Rightarrow> string \<Rightarrow> http_response option
     \<Rightarrow> (error + jsval) outcome" where
  \<comment> \<open>\<open>searchYelp(zip, callback)\<close> up to the search request, given the response to the token
      request: \<open>Invoked (Inr options)\<close> when the continuation of \<open>authenticate\<close> issued the
      request with these options, \<open>Invoked (Inl e)\<close> when it threw \<open>e\<close> before issuing it\<close>
  "searchYelp parse numToStr zip_arg tokenResponse =
     authenticate_onResponse parse tokenResponse (\<lambda>token. requestOptions numToStr zip_arg token)"

definition searchYelp_onResponse ::
  "(string \<Rightarrow> jsval option) \<Rightarrow> string \<Rightarrow> (jsval \<Rightarrow> 'a) \<Rightarrow> error + 'a" where
  \<comment> \<open>the callback of the search request: \<open>callback(JSON.parse(body))\<close>\<close>
  "searchYelp_onResponse parse body callback =
     (case parse body of None \<Rightarrow> Inl SyntaxError | Some response \<Rightarrow> Inr (callback response))"

subsection \<open>The vocabulary of the properties\<close>

text \<open>
  The affirmative replies: \<open>ok\<close>, \<open>okay\<close>, \<open>y\<close> and \<open>yes\<close>, in any letter case.
\<close>

definition affirmative :: "string \<Rightarrow> bool" where
  "affirmative text = (map canonicalize text \<in> set [''OK'', ''OKAY'', ''Y'', ''YES''])"

text \<open>
  An intent-triggering annotation payload: it parses to a value whose \<open>lens\<close> is \<open>Food\<close> and
  whose \<open>category\<close> is \<open>Request\<close>.
\<close>

definition food_request :: "(string \<Rightarrow> jsval option) \<Rightarrow> string \<Rightarrow> bool" where
  "food_request parse payload =
     (case parse payload of
        None \<Rightarrow> False
      | Some v \<Rightarrow> getProp v ''lens'' = Inr (Str ''Food'') \<and> getProp v ''category'' = Inr (Str ''Request''))"

text \<open>
  A business of the search response is an object; \<open>field\<close> reads one of its properties.
  Its first category is the first element of its \<open>categories\<close> list, when the list has one
  and it is a value with properties.
\<close>

fun field :: "jsval \<Rightarrow> string \<Rightarrow> jsval" where
  "field (Obj kvs) k = (case map_of kvs k of Some v \<Rightarrow> v | None \<Rightarrow> Undefined)"
| "field v k = Undefined"

fun firstCategory :: "jsval \<Rightarrow> jsval option" where
  "firstCategory (Obj kvs) =
     (case map_of kvs ''categories'' of
        Some (Arr (c # cs)) \<Rightarrow> if c = Undefined \<or> c = Null then None else Some c
      | _ \<Rightarrow> None)"
| "firstCategory v = None"

fun emptyCategories :: "jsval \<Rightarrow> bool" where
  "emptyCategories (Obj kvs) = (map_of kvs ''categories'' = Some (Arr []))"
| "emptyCategories v = False"

text \<open>
  The bullet line of a business: its name linked to its url, the title of its first
  category and its rating, ended by a newline.
\<close>

definition bulletLine :: "string \<Rightarrow> string \<Rightarrow> string \<Rightarrow> string \<Rightarrow> string" where
  "bulletLine name url title rating =
     ''* ['' @ name @ '']('' @ url @ '') - '' @ title @ '' (Rated: '' @ rating @ '' stars)''
     @ [CHR 0x0A]"

fun printable :: "jsval \<Rightarrow> bool" where
  \<comment> \<open>a value that converts to a string: no object with a \<open>toString\<close> property of its own,
      in the value or in an array of it\<close>
  "printable (Obj kvs) = (map_of kvs ''toString'' = None)"
| "printable (Arr xs) = list_all printable xs"
| "printable v = True"

definition renderable :: "jsval \<Rightarrow> bool" where
  \<comment> \<open>a business with a first category whose name, url, first category title and rating
      convert to strings\<close>
  "renderable b =
     (case firstCategory b of
        None \<Rightarrow> False
      | Some c \<Rightarrow> printable (field b ''name'') \<and> printable (field b ''url'')
                  \<and> printable (field c ''title'') \<and> printable (field b ''rating''))"

definition bulletOf :: "(rat \<Rightarrow> string) \<Rightarrow> jsval \<Rightarrow> string option" where
  "bulletOf numToStr b =
     (case firstCategory b of
        None \<Rightarrow> None
      | Some c \<Rightarrow>
          (case (ToString numToStr (field b ''name''), ToString numToStr (field b ''url''),
                 ToString numToStr (field c ''title''), ToString numToStr (field b ''rating'')) of
             (Inr name, Inr url, Inr title, Inr rating) \<Rightarrow> Some (bulletLine name url title rating)
           | _ \<Rightarrow> None))"

definition header :: string where
  "header = ''Here are some options:'' @ [CHR 0x0A, CHR 0x0A]"

subsection \<open>Example inputs\<close>

text \<open>
  Concrete inputs on which the properties below are evaluated. The library functions are
  instantiated by stand-ins, defined just far enough for these inputs: the texts that
  \<open>parse_example\<close> reads and \<open>stringify_example\<close> writes leave out the quotation marks of
  JSON, and \<open>hmac_example\<close> only records its two arguments.
\<close>

definition message_event :: "string \<Rightarrow> string \<Rightarrow> webhook_body" where
  \<comment> \<open>a message-created event in space \<open>space1\<close>\<close>
  "message_event uid text =
     \<lparr>spaceId = ''space1'', userId = uid, content = text,
      annotationType = [], annotationPayload = [], challenge = Undefined\<rparr>"

definition message_in :: "string \<Rightarrow> string \<Rightarrow> string \<Rightarrow> webhook_body" where
  \<comment> \<open>a message-created event in the space \<open>sid\<close>\<close>
  "message_in sid uid text =
     \<lparr>spaceId = sid, userId = uid, content = text,
      annotationType = [], annotationPayload = [], challenge = Undefined\<rparr>"

definition annotation_event :: "string \<Rightarrow> string \<Rightarrow> webhook_body" where
  \<comment> \<open>a message-annotation-added event in space \<open>space1\<close>\<close>
  "annotation_event ty payload =
     \<lparr>spaceId = ''space1'', userId = ''alice'', content = [],
      annotationType = ty, annotationPayload = payload, challenge = Undefined\<rparr>"

definition verification_event :: "string \<Rightarrow> webhook_body" where
  "verification_event c =
     \<lparr>spaceId = [], userId = [], content = [],
      annotationType = [], annotationPayload = [], challenge = Str c\<rparr>"

definition at_confirmation :: store where
  "at_confirmation = [''space1'' \<mapsto> \<lparr>state = 1, zip' = []\<rparr>]"

definition at_zip :: store where
  "at_zip = [''space1'' \<mapsto> \<lparr>state = 2, zip' = []\<rparr>]"

definition search_pending :: store where
  "search_pending = [''space1'' \<mapsto> \<lparr>state = 2, zip' = ''10001''\<rparr>]"

definition proto_at_confirmation :: store where
  "proto_at_confirmation = [''__proto__'' \<mapsto> \<lparr>state = 1, zip' = []\<rparr>]"

definition proto_search_pending :: store where
  "proto_search_pending = [''__proto__'' \<mapsto> \<lparr>state = 2, zip' = ''10001''\<rparr>]"

definition parse_example :: "string \<Rightarrow> jsval option" where
  "parse_example text =
     (if text = ''{lens:Food,category:Request}''
      then Some (Obj [(''lens'', Str ''Food''), (''category'', Str ''Request'')])
      else if text = ''{lens:Food,category:Review}''
      then Some (Obj [(''lens'', Str ''Food''), (''category'', Str ''Review'')])
      else if text = ''{access_token:t0}''
      then Some (Obj [(''access_token'', Str ''t0'')])
      else if text = ''{access_token:{toString:x}}''
      then Some (Obj [(''access_token'', Obj [(''toString'', Str ''x'')])])
      else if text = ''null'' then Some Null
      else None)"

definition numToStr_example :: "rat \<Rightarrow> string" where
  "numToStr_example r = (if r = 4 then ''4'' else if r = 9 / 2 then ''4.5'' else ''0'')"

definition stringify_example :: "jsval \<Rightarrow> string" where
  "stringify_example v =
     (case v of
        Obj [(k, Str c)] \<Rightarrow> ''{'' @ k @ '':'' @ c @ ''}''
      | _ \<Rightarrow> ''{}'')"

definition hmac_example :: "string \<Rightarrow> string \<Rightarrow> string" where
  "hmac_example key text = ''hmac('' @ key @ '','' @ text @ '')''"

definition two_businesses :: jsval where
  "two_businesses =
     Obj [(''businesses'',
       Arr [Obj [(''name'', Str ''Joe''), (''url'', Str ''http://y/joe''), (''rating'', Num (9 / 2)),
                 (''categories'', Arr [Obj [(''title'', Str ''Pizza'')], Obj [(''title'', Str ''Bar'')]])],
            Obj [(''name'', Str ''Ann''), (''url'', Str ''http://y/ann''), (''rating'', Num 4),
                 (''categories'', Arr [Obj [(''title'', Str ''Thai'')]])]])]"

definition no_category :: jsval where
  "no_category =
     Obj [(''businesses'',
       Arr [Obj [(''name'', Str ''Ann''), (''url'', Str ''http://y/ann''), (''rating'', Num 4),
                 (''categories'', Arr [Obj [(''title'', Str ''Thai'')]])],
            Obj [(''name'', Str ''Joe''), (''url'', Str ''http://y/joe''), (''rating'', Num (9 / 2)),
                 (''categories'', Arr [])]])]"

definition unprintable_name :: jsval where
  "unprintable_name =
     Obj [(''businesses'',
       Arr [Obj [(''name'', Obj [(''toString'', Str ''x'')]), (''url'', Str ''http://y/ann''),
                 (''rating'', Num 4), (''categories'', Arr [Obj [(''title'', Str ''Thai'')]])]])]"

definition uncategorised :: jsval where
  "uncategorised =
     Obj [(''businesses'',
       Arr [Obj [(''name'', Str ''Stall''), (''url'', Str ''http://y/stall''), (''rating'', Num 4),
                 (''categories'', Arr [])]])]"

section \<open>Properties\<close>

subsection \<open>What the confirmation pattern matches\<close>

lemma canonicalize_unfold:
  "canonicalize x = (if x = CHR ''a'' then CHR ''A'' else if x = CHR ''b'' then CHR ''B''
    else if x = CHR ''c'' then CHR ''C'' else if x = CHR ''d'' then CHR ''D''
    else if x = CHR ''e'' then CHR ''E'' else if x = CHR ''f'' then CHR ''F''
    else if x = CHR ''g'' then CHR ''G'' else if x = CHR ''h'' then CHR ''H''
    else if x = CHR ''i'' then CHR ''I'' else if x = CHR ''j'' then CHR ''J''
    else if x = CHR ''k'' then CHR ''K'' else if x = CHR ''l'' then CHR ''L''
    else if x = CHR ''m'' then CHR ''M'' else if x = CHR ''n'' then CHR ''N''
    else if x = CHR ''o'' then CHR ''O'' else if x = CHR ''p'' then CHR ''P''
    else if x = CHR ''q'' then CHR ''Q'' else if x = CHR ''r'' then CHR ''R''
    else if x = CHR ''s'' then CHR ''S'' else if x = CHR ''t'' then CHR ''T''
    else if x = CHR ''u'' then CHR ''U'' else if x = CHR ''v'' then CHR ''V''
    else if x = CHR ''w'' then CHR ''W'' else if x = CHR ''x'' then CHR ''X''
    else if x = CHR ''y'' then CHR ''Y'' else if x = CHR ''z'' then CHR ''Z'' else x)"
  by (simp add: canonicalize_def)

lemma canonicalize_K: "canonicalize x = CHR ''K'' \<longleftrightarrow> x = CHR ''k'' \<or> x = CHR ''K''"
  by (simp add: canonicalize_unfold)

lemma canonicalize_Y: "canonicalize x = CHR ''Y'' \<longleftrightarrow> x = CHR ''y'' \<or> x = CHR ''Y''"
  by (simp add: canonicalize_unfold)

lemma canonicalize_literals:
  "canonicalize CHR ''o'' = CHR ''O''" "canonicalize CHR ''k'' = CHR ''K''"
  "canonicalize CHR ''y'' = CHR ''Y''" "canonicalize CHR ''e'' = CHR ''E''"
  "canonicalize CHR ''s'' = CHR ''S''"
  by (simp_all add: canonicalize_def)

lemma matchesAt_CONFIRMATION_REGEX:
  "matchesAt CONFIRMATION_REGEX (x # xs) \<noteq> [] \<longleftrightarrow>
     x \<in> {CHR ''k'', CHR ''K'', CHR ''y'', CHR ''Y''}
     \<or> (canonicalize x = CHR ''O'' \<and> (\<exists>c cs. xs = c # cs \<and> c \<in> {CHR ''k'', CHR ''K''}))"
  by (auto simp: CONFIRMATION_REGEX_def canonicalize_literals canonicalize_K canonicalize_Y
           split: list.splits)

text \<open>
  The pattern is not anchored, and its optional parts add nothing to a search: a text
  matches exactly when it has a \<open>k\<close> or a \<open>y\<close> somewhere, in either case.
\<close>

lemma regexSearch_CONFIRMATION_REGEX:
  "regexSearch CONFIRMATION_REGEX s \<longleftrightarrow>
     (\<exists>c \<in> set s. c \<in> {CHR ''k'', CHR ''K'', CHR ''y'', CHR ''Y''})"
proof (induction s)
  case Nil
  show ?case by (simp add: CONFIRMATION_REGEX_def)
next
  case (Cons x xs)
  have "regexSearch CONFIRMATION_REGEX (x # xs) \<longleftrightarrow>
          matchesAt CONFIRMATION_REGEX (x # xs) \<noteq> [] \<or> regexSearch CONFIRMATION_REGEX xs"
    by simp
  also have "\<dots> \<longleftrightarrow> (x \<in> {CHR ''k'', CHR ''K'', CHR ''y'', CHR ''Y''}
     \<or> (canonicalize x = CHR ''O'' \<and> (\<exists>c cs. xs = c # cs \<and> c \<in> {CHR ''k'', CHR ''K''})))
     \<or> (\<exists>c \<in> set xs. c \<in> {CHR ''k'', CHR ''K'', CHR ''y'', CHR ''Y''})"
    by (simp only: matchesAt_CONFIRMATION_REGEX Cons.IH)
  also have "\<dots> \<longleftrightarrow> (\<exists>c \<in> set (x # xs). c \<in> {CHR ''k'', CHR ''K'', CHR ''y'', CHR ''Y''})"
    by fastforce
  finally show ?case .
qed

lemma content_match_iff:
  "content_match s \<longleftrightarrow> (\<exists>c \<in> set s. c \<in> {CHR ''k'', CHR ''K'', CHR ''y'', CHR ''Y''})"
  by (simp only: content_match_def regexSearch_CONFIRMATION_REGEX)

text \<open>Each affirmative reply has a \<open>k\<close> or a \<open>y\<close>, so the pattern finds a match in it.\<close>

lemma folded_content_match:
  assumes "CHR ''K'' \<in> set (map canonicalize text) \<or> CHR ''Y'' \<in> set (map canonicalize text)"
  shows "content_match text"
proof -
  from assms obtain c where "c \<in> set text" "canonicalize c = CHR ''K'' \<or> canonicalize c = CHR ''Y''"
    by auto
  then have "\<exists>c \<in> set text. c \<in> {CHR ''k'', CHR ''K'', CHR ''y'', CHR ''Y''}"
    unfolding canonicalize_K canonicalize_Y by blast
  then show ?thesis
    by (simp only: content_match_iff)
qed

lemma affirmative_content_match:
  assumes "affirmative text"
  shows "content_match text"
proof -
  from assms have "map canonicalize text = ''OK'' \<or> map canonicalize text = ''OKAY''
      \<or> map canonicalize text = ''Y'' \<or> map canonicalize text = ''YES''"
    by (simp add: affirmative_def)
  then have "CHR ''K'' \<in> set (map canonicalize text) \<or> CHR ''Y'' \<in> set (map canonicalize text)"
    by (elim disjE) (simp_all only: list.set, simp_all)
  then show ?thesis by (rule folded_content_match)
qed

subsection \<open>The entries of a reachable map\<close>

text \<open>
  An entry is created at state 1 with an empty zip, moves to state 2 in
  \<open>listRestaurants\<close>, and gets a zip only at state 2.
\<close>

lemma reachable_entry:
  "reachable appId parse numToStr st \<Longrightarrow> st sid = Some e \<Longrightarrow>
     (state e = 1 \<and> zip' e = []) \<or> state e = 2"
proof (induction arbitrary: sid e rule: reachable.induct)
  case initial
  then show ?case by simp
next
  case (message_created st body)
  then show ?case
    by (fastforce simp: checkResponse_def listRestaurants_def delete_entry_def
          split: option.splits if_splits)
next
  case (annotation_added st body)
  then show ?case
    by (fastforce simp: checkAnnotations_def split: option.splits if_splits sum.splits)
next
  case (search_response st sid' response)
  then show ?case
    by (fastforce simp: searchCallback_def delete_entry_def
          split: option.splits if_splits sum.splits jsval.splits)
qed

subsection \<open>Rendering the search response\<close>

lemma getProp_field: "v \<noteq> Undefined \<Longrightarrow> v \<noteq> Null \<Longrightarrow> getProp v k = Inr (field v k)"
  by (cases v) simp_all

lemma getProp_error: "getProp v k = Inl e \<Longrightarrow> e = TypeError"
  by (cases v) simp_all

lemma getIndex0_error: "getIndex0 v = Inl e \<Longrightarrow> e = TypeError"
  by (cases v) simp_all

lemma collect_error:
  "collect rs = Inl e \<Longrightarrow> \<exists>r \<in> set rs. r = Inl e"
  by (induction rs rule: collect.induct) (auto split: sum.splits)

lemma collect_Inr:
  "\<forall>r \<in> set rs. \<exists>x. r = Inr x \<Longrightarrow> \<exists>xs. collect rs = Inr xs"
  by (induction rs rule: collect.induct) auto

lemma ToString_error: "ToString numToStr v = Inl e \<Longrightarrow> e = TypeError"
proof (induction v)
  case (Arr xs)
  from Arr.prems obtain r
    where "r \<in> set (map (\<lambda>x. if x = Undefined \<or> x = Null then Inr [] else ToString numToStr x) xs)"
      and "r = Inl e"
    by (auto split: sum.splits dest: collect_error)
  then obtain x where "x \<in> set xs" "ToString numToStr x = Inl e"
    by (auto split: if_splits)
  with Arr.IH show ?case by blast
qed (auto split: if_splits)

lemma printable_ToString: "printable v \<Longrightarrow> \<exists>s. ToString numToStr v = Inr s"
proof (induction v)
  case (Arr xs)
  have "\<forall>r \<in> set (map (\<lambda>x. if x = Undefined \<or> x = Null then Inr [] else ToString numToStr x) xs).
          \<exists>s. r = Inr s"
    using Arr by (auto simp: list_all_iff)
  from collect_Inr [OF this] show ?case by auto
qed auto

lemma appendLink_error: "appendLink numToStr b message = Inl e \<Longrightarrow> e = TypeError"
  by (auto simp: appendLink_def split: sum.splits dest: getProp_error ToString_error)

lemma appendDetails_error: "appendDetails numToStr b message = Inl e \<Longrightarrow> e = TypeError"
  by (auto simp: appendDetails_def split: sum.splits
           dest: getProp_error getIndex0_error ToString_error)

lemma renderRestaurant_error: "renderRestaurant numToStr b message = Inl e \<Longrightarrow> e = TypeError"
  by (auto simp: renderRestaurant_def split: sum.splits dest: appendLink_error appendDetails_error)

lemma forEach_restaurant_error:
  "forEach_restaurant numToStr bs message = Inl e \<Longrightarrow> e = TypeError"
  by (induction bs arbitrary: message) (auto split: sum.splits dest: renderRestaurant_error)

lemma firstCategory_SomeD:
  "firstCategory b = Some c \<Longrightarrow>
     \<exists>kvs cs. b = Obj kvs \<and> map_of kvs ''categories'' = Some (Arr (c # cs)) \<and> c \<noteq> Undefined \<and> c \<noteq> Null"
  by (cases b) (auto split: option.splits jsval.splits list.splits if_splits)

lemma renderRestaurant_bullet:
  assumes "bulletOf numToStr b = Some line"
  shows "renderRestaurant numToStr b message = Inr (message @ line)"
proof -
  from assms obtain c name url title rating where c: "firstCategory b = Some c"
    and s: "ToString numToStr (field b ''name'') = Inr name"
      "ToString numToStr (field b ''url'') = Inr url"
      "ToString numToStr (field c ''title'') = Inr title"
      "ToString numToStr (field b ''rating'') = Inr rating"
    and line: "line = bulletLine name url title rating"
    by (auto simp: bulletOf_def split: option.splits sum.splits)
  from firstCategory_SomeD [OF c] obtain kvs cs where b: "b = Obj kvs"
    and cats: "map_of kvs ''categories'' = Some (Arr (c # cs))" and "c \<noteq> Undefined" "c \<noteq> Null"
    by blast
  then have title: "getProp c ''title'' = Inr (field c ''title'')"
    by (simp add: getProp_field)
  have f: "getProp b ''name'' = Inr (field b ''name'')" "getProp b ''url'' = Inr (field b ''url'')"
    "getProp b ''rating'' = Inr (field b ''rating'')" "getProp b ''categories'' = Inr (Arr (c # cs))"
    by (simp_all add: b cats)
  show ?thesis
    by (simp add: renderRestaurant_def appendLink_def appendDetails_def f s title line bulletLine_def)
qed

lemma renderRestaurant_emptyCategories:
  assumes "emptyCategories b"
  shows "renderRestaurant numToStr b message = Inl TypeError"
proof -
  from assms obtain kvs where b: "b = Obj kvs" and cats: "map_of kvs ''categories'' = Some (Arr [])"
    by (cases b) auto
  have "\<exists>e. appendDetails numToStr b m = Inl e" for m
    by (simp add: appendDetails_def b cats)
  then have "\<exists>e. renderRestaurant numToStr b message = Inl e"
    by (simp add: renderRestaurant_def split: sum.splits)
  then show ?thesis
    by (auto dest: renderRestaurant_error)
qed

lemma forEach_restaurant_bullets:
  "list_all2 (\<lambda>b line. bulletOf numToStr b = Some line) bs lines \<Longrightarrow>
     forEach_restaurant numToStr bs message = Inr (message @ concat lines)"
proof (induction bs arbitrary: lines message)
  case Nil
  then show ?case by simp
next
  case (Cons b bs)
  then obtain l ls where "lines = l # ls" "bulletOf numToStr b = Some l"
    "list_all2 (\<lambda>b line. bulletOf numToStr b = Some line) bs ls"
    by (auto simp: list_all2_Cons1)
  with Cons.IH [of ls "message @ l"] show ?case
    by (simp add: renderRestaurant_bullet)
qed

lemma forEach_restaurant_emptyCategories:
  "\<exists>b \<in> set bs. emptyCategories b \<Longrightarrow> forEach_restaurant numToStr bs message = Inl TypeError"
proof (induction bs arbitrary: message)
  case Nil
  then show ?case by simp
next
  case (Cons b bs)
  show ?case
  proof (cases "renderRestaurant numToStr b message")
    case (Inl e)
    then show ?thesis by (simp add: renderRestaurant_error [OF Inl])
  next
    case (Inr m)
    with Cons.prems have "\<exists>b \<in> set bs. emptyCategories b"
      by (auto simp: renderRestaurant_emptyCategories)
    from Cons.IH [OF this] Inr show ?thesis by simp
  qed
qed

lemma renderable_bulletOf: "renderable b \<Longrightarrow> \<exists>line. bulletOf numToStr b = Some line"
proof -
  assume "renderable b"
  then obtain c where c: "firstCategory b = Some c"
    and p: "printable (field b ''name'')" "printable (field b ''url'')"
      "printable (field c ''title'')" "printable (field b ''rating'')"
    by (auto simp: renderable_def split: option.splits)
  from p [THEN printable_ToString, of numToStr] c show ?thesis
    by (auto simp: bulletOf_def)
qed

lemma bullets_exist:
  "\<forall>b \<in> set bs. renderable b \<Longrightarrow>
     \<exists>lines. list_all2 (\<lambda>b line. bulletOf numToStr b = Some line) bs lines"
proof (induction bs)
  case Nil
  then show ?case by simp
next
  case (Cons b bs)
  then obtain ls where "list_all2 (\<lambda>b line. bulletOf numToStr b = Some line) bs ls" by auto
  moreover from Cons.prems renderable_bulletOf [of b numToStr]
  obtain l where "bulletOf numToStr b = Some l" by auto
  ultimately have "list_all2 (\<lambda>b line. bulletOf numToStr b = Some line) (b # bs) (l # ls)" by simp
  then show ?case by blast
qed

subsection \<open>Messages at the confirmation stage\<close>

lemma reachable_at_confirmation:
  "reachable (Some ''bot'') parse_example numToStr_example at_confirmation"
proof -
  have "fst (checkAnnotations parse_example
          (annotation_event ''message-focus'' ''{lens:Food,category:Request}'') Map.empty)
        = at_confirmation"
    by (simp add: checkAnnotations_def annotation_event_def parse_example_def at_confirmation_def)
  with reachable.annotation_added [OF reachable.initial,
      of "Some ''bot''" parse_example numToStr_example
         "annotation_event ''message-focus'' ''{lens:Food,category:Request}''"]
  show ?thesis by simp
qed

text \<open>
  C1, as the code has it by design: for every conversation whose stored entry is at the
  confirmation stage (state 1), a message-created event from a sender other than the
  bot's own application id whose content is an affirmative reply (\<open>ok\<close>, \<open>okay\<close>, \<open>y\<close> or
  \<open>yes\<close>, in any letter case; for example \<open>yes\<close>, \<open>Ok\<close>, \<open>y\<close>) advances the conversation to
  the zip-collection step: the entry moves to state 2 and the zip prompt is sent once.
  Every such message in whose content the pattern occurs nowhere (it has no \<open>k\<close> and no
  \<open>y\<close>, for example \<open>no\<close>), in a space other than \<open>__proto__\<close>, deletes the conversation
  entry and sends the cancellation message exactly once. Nothing is said of a reply that
  is not affirmative but has a \<open>k\<close> or a \<open>y\<close>, such as \<open>maybe\<close>.
\<close>

theorem confirmation_reply:
  assumes "reachable appId parse numToStr st"
    and "st (spaceId body) = Some e" and "state e = 1"
    and "Some (userId body) \<noteq> appId"
  shows "(affirmative (content body) \<longrightarrow>
            checkResponse appId body st =
              (st(spaceId body \<mapsto> \<lparr>state = 2, zip' = []\<rparr>),
               [SendMessage (spaceId body) WHICH_ZIP], None))
       \<and> (\<not> content_match (content body) \<and> spaceId body \<noteq> ''__proto__'' \<longrightarrow>
            checkResponse appId body st =
              (st(spaceId body := None), [SendMessage (spaceId body) CANCEL_REQUEST], None))
       \<and> affirmative ''yes'' \<and> affirmative ''Ok'' \<and> affirmative ''y''
       \<and> affirmative ''okay'' \<and> \<not> content_match ''no''"
proof -
  from reachable_entry [OF assms(1,2)] assms(3) have "zip' e = []" by simp
  then have e: "e = \<lparr>state = 1, zip' = []\<rparr>" using assms(3) by (cases e) simp
  have yes: "affirmative (content body) \<longrightarrow>
            checkResponse appId body st =
              (st(spaceId body \<mapsto> \<lparr>state = 2, zip' = []\<rparr>),
               [SendMessage (spaceId body) WHICH_ZIP], None)"
    using assms(2,4) e
    by (auto simp: checkResponse_def listRestaurants_def dest: affirmative_content_match)
  have no: "\<not> content_match (content body) \<and> spaceId body \<noteq> ''__proto__'' \<longrightarrow>
            checkResponse appId body st =
              (st(spaceId body := None), [SendMessage (spaceId body) CANCEL_REQUEST], None)"
    using assms(2,4) e
    by (simp add: checkResponse_def delete_entry_def)
  have ex: "affirmative ''yes''" "affirmative ''Ok''" "affirmative ''y''" "affirmative ''okay''"
    by (simp_all add: affirmative_def canonicalize_def)
  have "\<not> content_match ''no''"
    by (simp add: content_match_iff)
  with yes no ex show ?thesis by blast
qed

theorem confirmation_reply_witness:
  "reachable (Some ''bot'') parse_example numToStr_example at_confirmation
   \<and> at_confirmation ''space1'' = Some \<lparr>state = 1, zip' = []\<rparr>
   \<and> Some ''alice'' \<noteq> Some ''bot''
   \<and> affirmative ''Yes''
   \<and> checkResponse (Some ''bot'') (message_event ''alice'' ''Yes'') at_confirmation =
       (at_zip, [SendMessage ''space1'' ''Which zipcode should we search in?''], None)
   \<and> \<not> content_match ''no'' \<and> ''space1'' \<noteq> ''__proto__''
   \<and> checkResponse (Some ''bot'') (message_event ''alice'' ''no'') at_confirmation =
       (Map.empty, [SendMessage ''space1'' ''No problem! Let us know if you need to later!''], None)"
proof -
  have e: "at_confirmation ''space1'' = Some \<lparr>state = 1, zip' = []\<rparr>"
    by (simp add: at_confirmation_def)
  have m: "affirmative ''Yes''" "\<not> content_match ''no''"
    by (simp_all add: content_match_iff affirmative_def canonicalize_def)
  from confirmation_reply [OF reachable_at_confirmation, of "message_event ''alice'' ''Yes''"
      "\<lparr>state = 1, zip' = []\<rparr>"] e m
  have "checkResponse (Some ''bot'') (message_event ''alice'' ''Yes'') at_confirmation =
     (at_zip, [SendMessage ''space1'' ''Which zipcode should we search in?''], None)"
    by (simp add: message_event_def at_confirmation_def at_zip_def WHICH_ZIP_def)
  moreover
  from confirmation_reply [OF reachable_at_confirmation, of "message_event ''alice'' ''no''"
      "\<lparr>state = 1, zip' = []\<rparr>"] e m
  have "checkResponse (Some ''bot'') (message_event ''alice'' ''no'') at_confirmation =
     (Map.empty, [SendMessage ''space1'' ''No problem! Let us know if you need to later!''], None)"
    by (simp add: message_event_def at_confirmation_def CANCEL_REQUEST_def)
  ultimately show ?thesis
    using e m reachable_at_confirmation by simp
qed

text \<open>
  Three inputs at which the behaviour differs from the unrestricted statement. The reply
  \<open>maybe\<close> is not affirmative, but the pattern is not anchored and finds its \<open>y\<close>: the
  conversation advances and no cancellation is sent. A matching message that the bot
  itself sent is ignored: the conversation stays at the confirmation stage. In the space
  \<open>__proto__\<close> the reply \<open>no\<close> sends the cancellation, but the entry stays.
\<close>

theorem confirmation_reply_counterexample:
  "content_match ''maybe'' \<and> \<not> affirmative ''maybe''
   \<and> checkResponse (Some ''bot'') (message_event ''alice'' ''maybe'') at_confirmation =
       (at_zip, [SendMessage ''space1'' WHICH_ZIP], None)
   \<and> content_match ''yes''
   \<and> checkResponse (Some ''bot'') (message_event ''bot'' ''yes'') at_confirmation =
       (at_confirmation, [], None)
   \<and> \<not> content_match ''no''
   \<and> checkResponse (Some ''bot'') (message_in ''__proto__'' ''alice'' ''no'') proto_at_confirmation =
       (proto_at_confirmation, [SendMessage ''__proto__'' CANCEL_REQUEST], None)"
  by (simp add: content_match_iff affirmative_def canonicalize_def checkResponse_def
        listRestaurants_def delete_entry_def message_event_def message_in_def
        at_confirmation_def at_zip_def proto_at_confirmation_def)

subsection \<open>Ignored messages\<close>

text \<open>
  C2: for every message-created event, if the sending user id equals the bot's own
  application id, or if no conversation entry exists for the event's space id, then the
  conversation map is left unchanged and no outbound message or search call is
  triggered, even when the conversation is mid-flow.
\<close>

theorem checkResponse_ignored:
  assumes "Some (userId body) = appId \<or> st (spaceId body) = None"
  shows "checkResponse appId body st = (st, [], None)"
  using assms by (auto simp: checkResponse_def split: option.splits)

theorem checkResponse_ignored_witness:
  "(Some (userId (message_event ''bot'' ''10001'')) = Some ''bot''
      \<or> at_zip (spaceId (message_event ''bot'' ''10001'')) = None)
   \<and> checkResponse (Some ''bot'') (message_event ''bot'' ''10001'') at_zip = (at_zip, [], None)
   \<and> (Some (userId (message_event ''alice'' ''yes'')) = Some ''bot''
      \<or> Map.empty (spaceId (message_event ''alice'' ''yes'')) = None)
   \<and> checkResponse (Some ''bot'') (message_event ''alice'' ''yes'') Map.empty = (Map.empty, [], None)"
  using checkResponse_ignored [of "message_event ''bot'' ''10001''" "Some ''bot''" at_zip]
    checkResponse_ignored [of "message_event ''alice'' ''yes''" "Some ''bot''" Map.empty]
  by (simp add: message_event_def)

subsection \<open>Annotations\<close>

text \<open>
  C3: for every message-annotation-added event with annotationType \<open>message-focus\<close> whose
  payload has lens \<open>Food\<close> and category \<open>Request\<close>, arriving for a conversation id with no
  stored entry, a conversation entry is created at the confirmation stage (state 1, empty
  zip) and exactly one prompt message \<open>Would you like to search for restaurants?\<close> is
  sent; annotation events of any other annotationType, lens or category create no entry
  and send nothing.
\<close>

theorem checkAnnotations_intent:
  "(annotationType body = ''message-focus'' \<and> food_request parse (annotationPayload body)
      \<and> st (spaceId body) = None \<longrightarrow>
      checkAnnotations parse body st =
        (st(spaceId body \<mapsto> \<lparr>state = 1, zip' = []\<rparr>),
         [SendMessage (spaceId body) ''Would you like to search for restaurants?''], None))
   \<and> (annotationType body \<noteq> ''message-focus'' \<or> \<not> food_request parse (annotationPayload body) \<longrightarrow>
      fst (checkAnnotations parse body st) = st \<and> fst (snd (checkAnnotations parse body st)) = [])"
  by (auto simp: checkAnnotations_def food_request_def PROMPT_TO_LIST_def
           split: option.splits sum.splits)

theorem checkAnnotations_intent_witness:
  "food_request parse_example ''{lens:Food,category:Request}''
   \<and> checkAnnotations parse_example
        (annotation_event ''message-focus'' ''{lens:Food,category:Request}'') Map.empty =
       (at_confirmation, [SendMessage ''space1'' ''Would you like to search for restaurants?''], None)
   \<and> \<not> food_request parse_example ''{lens:Food,category:Review}''
   \<and> checkAnnotations parse_example
        (annotation_event ''message-focus'' ''{lens:Food,category:Review}'') Map.empty =
       (Map.empty, [], None)
   \<and> fst (checkAnnotations parse_example
        (annotation_event ''message-nlp-keywords'' ''{lens:Food,category:Request}'') Map.empty) =
       Map.empty"
proof -
  have f: "food_request parse_example ''{lens:Food,category:Request}''"
    "\<not> food_request parse_example ''{lens:Food,category:Review}''"
    by (simp_all add: food_request_def parse_example_def)
  have "checkAnnotations parse_example
        (annotation_event ''message-focus'' ''{lens:Food,category:Request}'') Map.empty =
       (at_confirmation, [SendMessage ''space1'' ''Would you like to search for restaurants?''], None)"
    using f checkAnnotations_intent [of "annotation_event ''message-focus'' ''{lens:Food,category:Request}''"
        parse_example Map.empty]
    by (simp add: annotation_event_def at_confirmation_def)
  moreover
  have "fst (checkAnnotations parse_example
        (annotation_event ''message-nlp-keywords'' ''{lens:Food,category:Request}'') Map.empty) =
       Map.empty"
    using checkAnnotations_intent [of "annotation_event ''message-nlp-keywords'' ''{lens:Food,category:Request}''"
        parse_example Map.empty]
    by (simp add: annotation_event_def)
  moreover
  have "checkAnnotations parse_example
        (annotation_event ''message-focus'' ''{lens:Food,category:Review}'') Map.empty =
       (Map.empty, [], None)"
    by (simp add: checkAnnotations_def annotation_event_def parse_example_def)
  ultimately show ?thesis using f by simp
qed

text \<open>
  C4: for every conversation id, an intent-triggering annotation (message-focus with lens
  \<open>Food\<close> and category \<open>Request\<close>) overwrites any existing conversation entry whatever its
  stage: a conversation at the zip-collection stage (state 2, possibly with a stored zip)
  is reset to the confirmation stage with an empty zip.
\<close>

theorem checkAnnotations_overwrites:
  assumes "annotationType body = ''message-focus''"
    and "food_request parse (annotationPayload body)"
    and "st (spaceId body) = Some e"
  shows "checkAnnotations parse body st =
           (st(spaceId body \<mapsto> \<lparr>state = 1, zip' = []\<rparr>),
            [SendMessage (spaceId body) PROMPT_TO_LIST], None)"
  using assms
  by (auto simp: checkAnnotations_def food_request_def split: option.splits)

theorem checkAnnotations_overwrites_witness:
  "annotationType (annotation_event ''message-focus'' ''{lens:Food,category:Request}'') = ''message-focus''
   \<and> food_request parse_example
        (annotationPayload (annotation_event ''message-focus'' ''{lens:Food,category:Request}''))
   \<and> search_pending ''space1'' = Some \<lparr>state = 2, zip' = ''10001''\<rparr>
   \<and> checkAnnotations parse_example
        (annotation_event ''message-focus'' ''{lens:Food,category:Request}'') search_pending =
       (at_confirmation, [SendMessage ''space1'' PROMPT_TO_LIST], None)"
proof -
  have h: "annotationType (annotation_event ''message-focus'' ''{lens:Food,category:Request}'') = ''message-focus''"
    "food_request parse_example
        (annotationPayload (annotation_event ''message-focus'' ''{lens:Food,category:Request}''))"
    "search_pending (spaceId (annotation_event ''message-focus'' ''{lens:Food,category:Request}''))
       = Some \<lparr>state = 2, zip' = ''10001''\<rparr>"
    by (simp_all add: annotation_event_def food_request_def parse_example_def search_pending_def)
  from checkAnnotations_overwrites
         [of "annotation_event ''message-focus'' ''{lens:Food,category:Request}''" parse_example
             search_pending "\<lparr>state = 2, zip' = ''10001''\<rparr>", OF h] h
  show ?thesis
    by (simp add: annotation_event_def search_pending_def at_confirmation_def)
qed

subsection \<open>Messages at the zip-collection stage\<close>

text \<open>
  C5, as the code has it: for every conversation whose stored entry is at the
  zip-collection stage (state 2), a message-created event from a sender other than the
  bot's own application id stores the message content verbatim as the zip; when that
  content is not empty, \<open>searchYelp\<close> is called with it. Once the token request has
  returned status 200 with a body that parses and an access token that converts to a
  string, the search request is issued, and every search request issued has the query
  parameters location equal to that content, term \<open>food\<close> and limit 5.
\<close>

theorem zip_reply:
  assumes "st (spaceId body) = Some e" and "state e = 2"
    and "Some (userId body) \<noteq> appId"
  shows "fst (checkResponse appId body st) (spaceId body) = Some (e\<lparr>zip' := content body\<rparr>)
       \<and> (content body \<noteq> [] \<longrightarrow>
            checkResponse appId body st =
              (st(spaceId body \<mapsto> e\<lparr>zip' := content body\<rparr>),
               [SearchYelp (content body) (spaceId body)], None))
       \<and> (statusCode r = 200 \<and> parse (response_body r) = Some parsed
            \<and> getProp parsed ''access_token'' = Inr token
            \<and> ToString numToStr token = Inr token_text \<longrightarrow>
            searchYelp parse numToStr (content body) (Some r) =
              Invoked (Inr (Obj [(''method'', Str ''GET''),
                     (''headers'', Obj [(''Authorization'', Str (''Bearer '' @ token_text))]),
                     (''url'', Str ''https://api.yelp.com/v3/businesses/search''),
                     (''qs'', Obj [(''location'', Str (content body)), (''term'', Str ''food''),
                                   (''limit'', Num 5)])])))
       \<and> (searchYelp parse numToStr (content body) tokenResponse = Invoked (Inr options) \<longrightarrow>
            getProp options ''qs'' =
              Inr (Obj [(''location'', Str (content body)), (''term'', Str ''food''), (''limit'', Num 5)]))"
proof -
  have stored: "fst (checkResponse appId body st) (spaceId body) = Some (e\<lparr>zip' := content body\<rparr>)"
    using assms by (simp add: checkResponse_def listRestaurants_def)
  have called: "content body \<noteq> [] \<longrightarrow>
            checkResponse appId body st =
              (st(spaceId body \<mapsto> e\<lparr>zip' := content body\<rparr>),
               [SearchYelp (content body) (spaceId body)], None)"
    using assms by (simp add: checkResponse_def listRestaurants_def)
  have issued: "statusCode r = 200 \<and> parse (response_body r) = Some parsed
            \<and> getProp parsed ''access_token'' = Inr token
            \<and> ToString numToStr token = Inr token_text \<longrightarrow>
            searchYelp parse numToStr (content body) (Some r) =
              Invoked (Inr (Obj [(''method'', Str ''GET''),
                     (''headers'', Obj [(''Authorization'', Str (''Bearer '' @ token_text))]),
                     (''url'', Str ''https://api.yelp.com/v3/businesses/search''),
                     (''qs'', Obj [(''location'', Str (content body)), (''term'', Str ''food''),
                                   (''limit'', Num 5)])]))"
    by (simp add: searchYelp_def authenticate_onResponse_def requestOptions_def
          YELP_API_def YELP_SEARCH_def)
  have qs: "searchYelp parse numToStr (content body) tokenResponse = Invoked (Inr options) \<longrightarrow>
            getProp options ''qs'' =
              Inr (Obj [(''location'', Str (content body)), (''term'', Str ''food''), (''limit'', Num 5)])"
    by (auto simp: searchYelp_def authenticate_onResponse_def requestOptions_def
             split: option.splits sum.splits if_splits)
  from stored called issued qs show ?thesis by blast
qed

theorem zip_reply_witness:
  "at_zip ''space1'' = Some \<lparr>state = 2, zip' = []\<rparr> \<and> Some ''alice'' \<noteq> Some ''bot''
   \<and> checkResponse (Some ''bot'') (message_event ''alice'' ''10001'') at_zip =
       (search_pending, [SearchYelp ''10001'' ''space1''], None)
   \<and> ToString numToStr_example (Str ''t0'') = Inr ''t0''
   \<and> searchYelp parse_example numToStr_example ''10001''
        (Some \<lparr>statusCode = 200, response_body = ''{access_token:t0}''\<rparr>) =
       Invoked (Inr (Obj [(''method'', Str ''GET''),
                     (''headers'', Obj [(''Authorization'', Str ''Bearer t0'')]),
                     (''url'', Str ''https://api.yelp.com/v3/businesses/search''),
                     (''qs'', Obj [(''location'', Str ''10001''), (''term'', Str ''food''),
                                   (''limit'', Num 5)])]))"
proof -
  have h: "at_zip (spaceId (message_event ''alice'' ''10001'')) = Some \<lparr>state = 2, zip' = []\<rparr>"
    "state \<lparr>state = 2, zip' = []\<rparr> = 2"
    "Some (userId (message_event ''alice'' ''10001'')) \<noteq> Some ''bot''"
    by (simp_all add: at_zip_def message_event_def)
  have p: "parse_example (response_body \<lparr>statusCode = 200, response_body = ''{access_token:t0}''\<rparr>)
             = Some (Obj [(''access_token'', Str ''t0'')])"
    by (simp add: parse_example_def)
  from zip_reply [where st = at_zip and body = "message_event ''alice'' ''10001''"
      and e = "\<lparr>state = 2, zip' = []\<rparr>" and appId = "Some ''bot''"
      and r = "\<lparr>statusCode = 200, response_body = ''{access_token:t0}''\<rparr>"
      and parse = parse_example and parsed = "Obj [(''access_token'', Str ''t0'')]"
      and token = "Str ''t0''" and numToStr = numToStr_example and token_text = "''t0''", OF h] p
  show ?thesis
    by (simp add: at_zip_def search_pending_def message_event_def)
qed

text \<open>
  Four inputs at which the behaviour differs from the unrestricted statement: a message
  of the bot itself at state 2 is ignored, so its content is not stored; an empty content
  is stored but no search is called (the zip prompt is sent again); a token response with
  status 401 ends the process before any search request; and an access token that is an
  object with a \<open>toString\<close> property of its own makes the \<open>Authorization\<close> template throw,
  so no search request is issued.
\<close>

theorem zip_reply_counterexample:
  "checkResponse (Some ''bot'') (message_event ''bot'' ''10001'') at_zip = (at_zip, [], None)
   \<and> checkResponse (Some ''bot'') (message_event ''alice'' '''') at_zip =
       (at_zip, [SendMessage ''space1'' WHICH_ZIP], None)
   \<and> searchYelp parse_example numToStr_example ''10001''
        (Some \<lparr>statusCode = 401, response_body = ''{access_token:t0}''\<rparr>) = ProcessExit 1
   \<and> searchYelp parse_example numToStr_example ''10001''
        (Some \<lparr>statusCode = 200, response_body = ''{access_token:{toString:x}}''\<rparr>) =
       Invoked (Inl TypeError)"
  by (simp add: checkResponse_def listRestaurants_def message_event_def at_zip_def
        searchYelp_def authenticate_onResponse_def requestOptions_def parse_example_def)

text \<open>
  C9, as the code has it: for every conversation at the zip-collection stage (state 2), a
  message-created event from a sender other than the bot's own application id whose
  content is the empty string stores the empty string as the zip but does not trigger a
  search: the stored zip is falsy, so the flow sends the zip prompt
  \<open>Which zipcode should we search in?\<close> again and the entry remains at state 2.
\<close>

theorem empty_zip_reply:
  assumes "st (spaceId body) = Some e" and "state e = 2"
    and "Some (userId body) \<noteq> appId" and "content body = []"
  shows "checkResponse appId body st =
           (st(spaceId body \<mapsto> \<lparr>state = 2, zip' = []\<rparr>),
            [SendMessage (spaceId body) ''Which zipcode should we search in?''], None)"
  using assms
  by (cases e) (simp add: checkResponse_def listRestaurants_def WHICH_ZIP_def)

theorem empty_zip_reply_witness:
  "search_pending ''space1'' = Some \<lparr>state = 2, zip' = ''10001''\<rparr>
   \<and> Some ''alice'' \<noteq> Some ''bot'' \<and> content (message_event ''alice'' '''') = []
   \<and> checkResponse (Some ''bot'') (message_event ''alice'' '''') search_pending =
       (at_zip, [SendMessage ''space1'' ''Which zipcode should we search in?''], None)"
proof -
  have h: "search_pending (spaceId (message_event ''alice'' '''')) = Some \<lparr>state = 2, zip' = ''10001''\<rparr>"
    "state \<lparr>state = 2, zip' = ''10001''\<rparr> = 2"
    "Some (userId (message_event ''alice'' '''')) \<noteq> Some ''bot''"
    "content (message_event ''alice'' '''') = []"
    by (simp_all add: search_pending_def message_event_def)
  from empty_zip_reply [of search_pending "message_event ''alice'' ''''"
      "\<lparr>state = 2, zip' = ''10001''\<rparr>" "Some ''bot''", OF h] h
  show ?thesis
    by (simp add: search_pending_def at_zip_def message_event_def)
qed

text \<open>
  The claim as the specification words it fails for a message of the bot itself: it is
  ignored, the stored zip stays and no prompt is sent.
\<close>

theorem empty_zip_reply_counterexample:
  "checkResponse (Some ''bot'') (message_event ''bot'' '''') search_pending =
     (search_pending, [], None)"
  by (simp add: checkResponse_def message_event_def search_pending_def)

subsection \<open>The search response\<close>

text \<open>
  C6, as the code has it: for every search response containing N businesses, each an
  object whose \<open>categories\<close> list is not empty and starts with a value other than \<open>null\<close>,
  and whose name, url, first category title and rating convert to strings (none is an
  object with a \<open>toString\<close> property of its own), arriving for a space id other than
  \<open>__proto__\<close>, the rendered outbound message is the header followed by exactly N bullet
  lines, in order, each made of that business's name linked to its url, the title of its
  first category and its rating; it is sent as one message, and after sending the
  conversation entry for that space id is deleted, so a subsequent message for that
  conversation id is ignored.
\<close>

theorem search_response_rendered:
  assumes "getProp response ''businesses'' = Inr (Arr bs)"
    and "\<forall>b \<in> set bs. renderable b"
    and "sid \<noteq> ''__proto__''"
  shows "\<exists>lines. length lines = length bs
           \<and> list_all2 (\<lambda>b line. bulletOf numToStr b = Some line) bs lines
           \<and> searchCallback numToStr sid response st =
               (st(sid := None), [SendMessage sid (header @ concat lines)], None)
           \<and> (\<forall>body. spaceId body = sid \<longrightarrow>
                 checkResponse appId body (fst (searchCallback numToStr sid response st)) =
                   (st(sid := None), [], None))"
proof -
  from bullets_exist [OF assms(2)] obtain lines
    where lines: "list_all2 (\<lambda>b line. bulletOf numToStr b = Some line) bs lines"
    by blast
  then have len: "length lines = length bs"
    by (simp add: list_all2_lengthD)
  have res: "searchCallback numToStr sid response st =
               (st(sid := None), [SendMessage sid (header @ concat lines)], None)"
    by (simp add: searchCallback_def assms(1,3) forEach_restaurant_bullets [OF lines] header_def
          delete_entry_def)
  have "\<forall>body. spaceId body = sid \<longrightarrow>
          checkResponse appId body (fst (searchCallback numToStr sid response st)) =
            (st(sid := None), [], None)"
    by (simp add: res checkResponse_def)
  with len lines res show ?thesis by blast
qed

theorem search_response_rendered_witness:
  "getProp two_businesses ''businesses'' \<noteq> Inl TypeError \<and> ''space1'' \<noteq> ''__proto__''
   \<and> searchCallback numToStr_example ''space1'' two_businesses search_pending =
       (Map.empty,
        [SendMessage ''space1''
          (''Here are some options:'' @ [CHR 0x0A, CHR 0x0A]
           @ ''* [Joe](http://y/joe) - Pizza (Rated: 4.5 stars)'' @ [CHR 0x0A]
           @ ''* [Ann](http://y/ann) - Thai (Rated: 4 stars)'' @ [CHR 0x0A])], None)
   \<and> checkResponse (Some ''bot'') (message_event ''alice'' ''10001'') Map.empty = (Map.empty, [], None)"
proof -
  let ?b1 = "Obj [(''name'', Str ''Joe''), (''url'', Str ''http://y/joe''), (''rating'', Num (9 / 2)),
                 (''categories'', Arr [Obj [(''title'', Str ''Pizza'')], Obj [(''title'', Str ''Bar'')]])]"
  let ?b2 = "Obj [(''name'', Str ''Ann''), (''url'', Str ''http://y/ann''), (''rating'', Num 4),
                 (''categories'', Arr [Obj [(''title'', Str ''Thai'')]])]"
  have h1: "getProp two_businesses ''businesses'' = Inr (Arr [?b1, ?b2])"
    by (simp add: two_businesses_def)
  have h2: "\<forall>b \<in> set [?b1, ?b2]. renderable b"
    by (simp add: renderable_def)
  have h3: "''space1'' \<noteq> ''__proto__''"
    by simp
  from search_response_rendered [OF h1 h2 h3, of numToStr_example search_pending "Some ''bot''"]
  obtain lines
    where b: "list_all2 (\<lambda>b line. bulletOf numToStr_example b = Some line) [?b1, ?b2] lines"
    and r: "searchCallback numToStr_example ''space1'' two_businesses search_pending =
               (search_pending(''space1'' := None), [SendMessage ''space1'' (header @ concat lines)], None)"
    and c: "\<forall>body. spaceId body = ''space1'' \<longrightarrow>
                 checkResponse (Some ''bot'') body
                   (fst (searchCallback numToStr_example ''space1'' two_businesses search_pending)) =
                   (search_pending(''space1'' := None), [], None)"
    by blast
  from b have ls: "lines = [''* [Joe](http://y/joe) - Pizza (Rated: 4.5 stars)'' @ [CHR 0x0A],
                            ''* [Ann](http://y/ann) - Thai (Rated: 4 stars)'' @ [CHR 0x0A]]"
    by (auto simp: list_all2_Cons1 bulletOf_def bulletLine_def numToStr_example_def)
  have e: "search_pending(''space1'' := None) = Map.empty"
    by (simp add: search_pending_def)
  from c have "checkResponse (Some ''bot'') (message_event ''alice'' ''10001'')
                   (fst (searchCallback numToStr_example ''space1'' two_businesses search_pending)) =
                   (search_pending(''space1'' := None), [], None)"
    by (simp add: message_event_def)
  with r e h1 show ?thesis
    by (simp add: ls header_def)
qed

text \<open>
  Three inputs at which the behaviour differs from the unrestricted statement: a business
  whose \<open>categories\<close> list is empty, and a business whose name is an object with a
  \<open>toString\<close> property of its own, each end the callback with a TypeError, with nothing
  sent and the entry left in place; and for the space \<open>__proto__\<close> the message is sent but
  the entry stays.
\<close>

theorem search_response_rendered_counterexample:
  "searchCallback numToStr_example ''space1'' uncategorised search_pending =
     (search_pending, [], Some TypeError)
   \<and> searchCallback numToStr_example ''space1'' unprintable_name search_pending =
     (search_pending, [], Some TypeError)
   \<and> fst (searchCallback numToStr_example ''__proto__'' two_businesses proto_search_pending)
        ''__proto__'' = Some \<lparr>state = 2, zip' = ''10001''\<rparr>
   \<and> snd (snd (searchCallback numToStr_example ''__proto__'' two_businesses proto_search_pending))
        = None"
  by (simp add: searchCallback_def uncategorised_def unprintable_name_def two_businesses_def
        renderRestaurant_def appendLink_def appendDetails_def delete_entry_def
        search_pending_def proto_search_pending_def)

text \<open>
  C10: rendering reads \<open>categories[0].title\<close> of each business without a guard, so it
  completes only if every business of the response has a non-empty categories list: for
  every response with a business whose categories list is empty, and so for some
  response, the formatting step fails with a TypeError, no message is sent and the
  conversation entry is not deleted.
\<close>

theorem categories_unguarded:
  assumes "getProp response ''businesses'' = Inr (Arr bs)"
    and "\<exists>b \<in> set bs. emptyCategories b"
  shows "searchCallback numToStr sid response st = (st, [], Some TypeError)"
  by (simp add: searchCallback_def assms(1) forEach_restaurant_emptyCategories [OF assms(2)])

theorem categories_unguarded_witness:
  "(\<exists>bs. getProp no_category ''businesses'' = Inr (Arr bs) \<and> (\<exists>b \<in> set bs. emptyCategories b))
   \<and> searchCallback numToStr_example ''space1'' no_category search_pending =
       (search_pending, [], Some TypeError)
   \<and> fst (searchCallback numToStr_example ''space1'' no_category search_pending) ''space1'' =
       Some \<lparr>state = 2, zip' = ''10001''\<rparr>"
proof -
  let ?b1 = "Obj [(''name'', Str ''Ann''), (''url'', Str ''http://y/ann''), (''rating'', Num 4),
                 (''categories'', Arr [Obj [(''title'', Str ''Thai'')]])]"
  let ?b2 = "Obj [(''name'', Str ''Joe''), (''url'', Str ''http://y/joe''), (''rating'', Num (9 / 2)),
                 (''categories'', Arr [])]"
  have h1: "getProp no_category ''businesses'' = Inr (Arr [?b1, ?b2])"
    by (simp add: no_category_def)
  have h2: "\<exists>b \<in> set [?b1, ?b2]. emptyCategories b"
    by simp
  from categories_unguarded [OF h1 h2, of numToStr_example "''space1''" search_pending] h1 h2
  show ?thesis
    by (auto simp: search_pending_def)
qed

subsection \<open>Webhook verification\<close>

text \<open>
  C7: for every verification event carrying a challenge string, the response sets the
  \<open>X-OUTBOUND-TOKEN\<close> header to exactly the HMAC-SHA256 hex digest, keyed by the configured
  webhook secret, of the JSON serialization of the object \<open>{response: challenge}\<close>, and the
  response body is that same serialized object.
\<close>

theorem verifyCallback_token:
  assumes "webhookSecret = Some secret" and "challenge body = Str c"
  shows "\<exists>reply. verifyCallback hmac_sha256_hex stringify webhookSecret body = Inr reply
           \<and> map_of (headers_set reply) ''X-OUTBOUND-TOKEN'' =
               Some (hmac_sha256_hex secret (stringify (Obj [(''response'', Str c)])))
           \<and> body_sent reply = stringify (Obj [(''response'', Str c)])"
  using assms by (simp add: verifyCallback_def Let_def)

theorem verifyCallback_token_witness:
  "challenge (verification_event ''abc'') = Str ''abc''
   \<and> verifyCallback hmac_example stringify_example (Some ''s3cret'') (verification_event ''abc'') =
       Inr \<lparr>headers_set = [(''X-OUTBOUND-TOKEN'', ''hmac(s3cret,{response:abc})'')],
            body_sent = ''{response:abc}''\<rparr>"
proof -
  have h: "challenge (verification_event ''abc'') = Str ''abc''"
    by (simp add: verification_event_def)
  from verifyCallback_token [where webhookSecret = "Some ''s3cret''" and secret = "''s3cret''"
      and hmac_sha256_hex = hmac_example and stringify = stringify_example, OF refl h]
  obtain reply where r: "verifyCallback hmac_example stringify_example (Some ''s3cret'')
        (verification_event ''abc'') = Inr reply"
    and t: "map_of (headers_set reply) ''X-OUTBOUND-TOKEN'' =
               Some (hmac_example ''s3cret'' (stringify_example (Obj [(''response'', Str ''abc'')])))"
    and b: "body_sent reply = stringify_example (Obj [(''response'', Str ''abc'')])"
    by blast
  have "verifyCallback hmac_example stringify_example (Some ''s3cret'') (verification_event ''abc'') =
       Inr \<lparr>headers_set = [(''X-OUTBOUND-TOKEN'', ''hmac(s3cret,{response:abc})'')],
            body_sent = ''{response:abc}''\<rparr>"
    using r t b
    by (cases reply) (auto simp: verifyCallback_def Let_def verification_event_def hmac_example_def
          stringify_example_def)
  with h show ?thesis by simp
qed

subsection \<open>Authentication\<close>

text \<open>
  C8: for both outbound authentication operations (\<open>authenticateApp\<close> for the messaging
  platform, \<open>authenticate\<close> for the search provider), every response whose HTTP status is
  not 200 ends the process with \<open>process.exit(1)\<close>, with no further request; the
  continuation is invoked, with the access token of the response, only when the status
  is 200.
\<close>

theorem authentication_fatal:
  "(statusCode r \<noteq> 200 \<longrightarrow>
      authenticateApp_onResponse parse (Some r) callback = ProcessExit 1
      \<and> authenticate_onResponse parse (Some r) callback = ProcessExit 1)
   \<and> (authenticateApp_onResponse parse response callback = Invoked x \<longrightarrow>
        (\<exists>r' parsed token. response = Some r' \<and> statusCode r' = 200
           \<and> parse (response_body r') = Some parsed
           \<and> getProp parsed ''access_token'' = Inr token \<and> x = callback token))
   \<and> (authenticate_onResponse parse response callback = Invoked x \<longrightarrow>
        (\<exists>r' parsed token. response = Some r' \<and> statusCode r' = 200
           \<and> parse (response_body r') = Some parsed
           \<and> getProp parsed ''access_token'' = Inr token \<and> x = callback token))
   \<and> (statusCode r = 200 \<and> parse (response_body r) = Some parsed
        \<and> getProp parsed ''access_token'' = Inr token \<longrightarrow>
        authenticateApp_onResponse parse (Some r) callback = Invoked (callback token)
        \<and> authenticate_onResponse parse (Some r) callback = Invoked (callback token))"
  by (auto simp: authenticateApp_onResponse_def authenticate_onResponse_def
           split: option.splits sum.splits if_splits)

theorem authentication_fatal_witness:
  "statusCode \<lparr>statusCode = 401, response_body = ''{access_token:t0}''\<rparr> \<noteq> 200
   \<and> authenticateApp_onResponse parse_example
        (Some \<lparr>statusCode = 401, response_body = ''{access_token:t0}''\<rparr>) (\<lambda>token. token) = ProcessExit 1
   \<and> authenticate_onResponse parse_example
        (Some \<lparr>statusCode = 401, response_body = ''{access_token:t0}''\<rparr>) (\<lambda>token. token) = ProcessExit 1
   \<and> searchYelp parse_example numToStr_example ''10001''
        (Some \<lparr>statusCode = 500, response_body = []\<rparr>) = ProcessExit 1
   \<and> authenticateApp_onResponse parse_example
        (Some \<lparr>statusCode = 200, response_body = ''{access_token:t0}''\<rparr>) (\<lambda>token. token)
       = Invoked (Str ''t0'')"
proof -
  have p: "parse_example (response_body \<lparr>statusCode = 200, response_body = ''{access_token:t0}''\<rparr>)
             = Some (Obj [(''access_token'', Str ''t0'')])"
    by (simp add: parse_example_def)
  from authentication_fatal [where r = "\<lparr>statusCode = 401, response_body = ''{access_token:t0}''\<rparr>"
      and parse = parse_example and callback = "\<lambda>token. token"]
  have a: "authenticateApp_onResponse parse_example
        (Some \<lparr>statusCode = 401, response_body = ''{access_token:t0}''\<rparr>) (\<lambda>token. token) = ProcessExit 1
     \<and> authenticate_onResponse parse_example
        (Some \<lparr>statusCode = 401, response_body = ''{access_token:t0}''\<rparr>) (\<lambda>token. token) = ProcessExit 1"
    by simp
  from authentication_fatal [where r = "\<lparr>statusCode = 500, response_body = []\<rparr>"
      and parse = parse_example and callback = "\<lambda>token. requestOptions numToStr_example ''10001'' token"]
  have b: "searchYelp parse_example numToStr_example ''10001''
        (Some \<lparr>statusCode = 500, response_body = []\<rparr>) = ProcessExit 1"
    by (simp add: searchYelp_def)
  from authentication_fatal [where r = "\<lparr>statusCode = 200, response_body = ''{access_token:t0}''\<rparr>"
      and parse = parse_example and callback = "\<lambda>token. token"
      and parsed = "Obj [(''access_token'', Str ''t0'')]" and token = "Str ''t0''"] p
  have c: "authenticateApp_onResponse parse_example
        (Some \<lparr>statusCode = 200, response_body = ''{access_token:t0}''\<rparr>) (\<lambda>token. token)
       = Invoked (Str ''t0'')"
    by simp
  from a b c show ?thesis by simp
qed

end
